theory Spec2Isabelle
  imports Complex_Main
begin

section \<open>Numbers\<close>

text \<open>
  The program computes with JavaScript numbers. They are modelled as the reals: every
  arithmetic operation is exact, and there is neither NaN nor an infinity. Statements
  whose source divides are given for inputs on which the divisor is not zero.
  \<open>Math.max\<close> and \<open>Math.min\<close> are \<open>max\<close> and \<open>min\<close>.
\<close>

text \<open>The spec's \<open>clamp(x, lo, hi)\<close>, written by cases.\<close>

definition clamp :: "real \<Rightarrow> real \<Rightarrow> real \<Rightarrow> real" where
  "clamp x lo hi = (if x < lo then lo else if hi < x then hi else x)"

text \<open>\<open>Array.prototype.slice(-n)\<close>: the last \<open>n\<close> elements, all of them when there are
  fewer; \<open>slice(-0)\<close> is \<open>slice(0)\<close>, the whole array.\<close>

definition sliceLast :: "nat \<Rightarrow> 'a list \<Rightarrow> 'a list" where
  "sliceLast n xs = (if n = 0 then xs else drop (length xs - n) xs)"

text \<open>\<open>Number.prototype.toFixed(2)\<close>, read back as a number: the nearest multiple of 0.01,
  the larger one on a tie, the sign set aside first.\<close>

definition toFixed2 :: "real \<Rightarrow> real" where
  "toFixed2 x =
     (if x < 0 then - (real_of_int \<lfloor>(- x) * 100 + 1 / 2\<rfloor> / 100)
      else real_of_int \<lfloor>x * 100 + 1 / 2\<rfloor> / 100)"

text \<open>\<open>Math.round\<close>: the nearest integer, the larger one on a tie.\<close>

definition mathRound :: "real \<Rightarrow> real" where
  "mathRound x = real_of_int \<lfloor>x + 1 / 2\<rfloor>"

section \<open>Bars\<close>

text \<open>
  A bar of price data. Only \<open>high\<close>, \<open>low\<close> and \<open>close\<close> are read by the code modelled here.
  \<open>high\<close> and \<open>low\<close> are read through \<open>priceData[i].high || priceData[i].close\<close>, which
  replaces a missing or zero field by the close; a missing field is the value 0 here.
\<close>

record bar =
  high :: real
  low :: real
  close :: real

text \<open>The actions of a signal.\<close>

datatype signalAction = BUY | SELL | HOLD

section \<open>strategy.js: the composite score\<close>

text \<open>The object returned by \<open>evaluatePerformance\<close>.\<close>

record performance =
  winRate :: real
  profitFactor :: real
  maxDrawdown :: real
  totalTrades :: nat
  wins :: nat
  losses :: nat
  sharpeRatio :: real

text \<open>The \<open>switch (timeframe)\<close> of \<open>calculateCompositeScore\<close>; a string that is none of
  the three cases leaves the initial value 1.0.\<close>

definition scoreTimeframeMultiplier :: "string \<Rightarrow> real" where
  "scoreTimeframeMultiplier timeframe =
     (if timeframe = ''1m'' then 0.9
      else if timeframe = ''5m'' then 1.0
      else if timeframe = ''15m'' then 0.95
      else 1.0)"

definition calculateCompositeScore :: "real \<Rightarrow> real \<Rightarrow> performance \<Rightarrow> string \<Rightarrow> real" where
  "calculateCompositeScore crossoverScore rSquared perf timeframe =
     (let normalizedCrossover = max 0 (min 1 ((crossoverScore + 100) / 200));
          normalizedRSquared = max 0 (min 1 rSquared);
          normalizedWinRate = max 0 (min 1 (winRate perf));
          normalizedProfitFactor = max 0 (min 1 (profitFactor perf / 1000));
          normalizedDrawdown = max 0 (min 1 (1 - maxDrawdown perf / 1000));
          compositeScore =
            0.4 * normalizedCrossover +
            0.2 * normalizedRSquared +
            0.2 * normalizedWinRate +
            0.1 * normalizedProfitFactor +
            0.1 * normalizedDrawdown
      in compositeScore * scoreTimeframeMultiplier timeframe)"

text \<open>The weighted sum as the specification words it, before the timeframe multiplier.\<close>

definition specWeightedSum :: "real \<Rightarrow> real \<Rightarrow> performance \<Rightarrow> real" where
  "specWeightedSum crossoverScore rSquared perf =
     0.4 * clamp ((crossoverScore + 100) / 200) 0 1
   + 0.2 * clamp rSquared 0 1
   + 0.2 * clamp (winRate perf) 0 1
   + 0.1 * clamp (profitFactor perf / 1000) 0 1
   + 0.1 * clamp (1 - maxDrawdown perf / 1000) 0 1"

section \<open>strategy.js: scoring a moving average and the optimizer\<close>

text \<open>
  \<open>calculateMA\<close> delegates to the package \<open>technicalindicators\<close>, which is not part of the
  repository. The functions below that call it take it as the parameter \<open>calculateMA\<close>:
  applied to the prices, the type and the length it gives \<open>None\<close> for the \<open>null\<close> returned
  on an error and otherwise the array \<open>validResult\<close> of finite numbers.
\<close>

type_synonym maFunction = "real list \<Rightarrow> string \<Rightarrow> nat \<Rightarrow> real list option"

text \<open>The index \<open>priceIdx = prices.length - maValues.length + i\<close> may be negative.\<close>

definition priceIndex :: "real list \<Rightarrow> real list \<Rightarrow> nat \<Rightarrow> int" where
  "priceIndex prices maValues i = int (length prices) - int (length maValues) + int i"

definition scoreMAStep :: "real list \<Rightarrow> real list \<Rightarrow> nat \<Rightarrow> real \<Rightarrow> nat \<Rightarrow> real" where
  "scoreMAStep prices maValues len score i =
     (let priceIdx = priceIndex prices maValues i in
      if priceIdx > 0 \<and> priceIdx < int (length prices) then
        let prevPrice = prices ! nat (priceIdx - 1);
            curPrice = prices ! nat priceIdx;
            prevMA = maValues ! (i - 1);
            curMA = maValues ! i;
            longSignal = (prevPrice \<le> prevMA \<and> curPrice > curMA);
            shortSignal = (prevPrice \<ge> prevMA \<and> curPrice < curMA)
        in if longSignal then score + (curPrice - prevPrice) / real len
           else if shortSignal then score + (prevPrice - curPrice) / real len
           else score
      else score)"

definition scoreMA :: "real list \<Rightarrow> real list \<Rightarrow> nat \<Rightarrow> nat \<Rightarrow> real" where
  "scoreMA prices maValues len evaluationPeriod =
     (if length maValues < evaluationPeriod then 0
      else
        let startIdx = length maValues - evaluationPeriod
        in foldl (scoreMAStep prices maValues len) 0 [startIdx + 1 ..< length maValues])"

definition calculateRSquared :: "real list \<Rightarrow> real list \<Rightarrow> nat \<Rightarrow> real" where
  "calculateRSquared prices maValues len =
     (if length prices \<noteq> length maValues then 0
      else
        let n = min (length prices) len;
            priceSlice = sliceLast n prices;
            maSlice = sliceLast n maValues;
            priceMean = sum_list priceSlice / real n;
            ssRes = (\<Sum>i\<leftarrow>[0..<n]. (priceSlice ! i - maSlice ! i)\<^sup>2);
            ssTot = (\<Sum>i\<leftarrow>[0..<n]. (priceSlice ! i - priceMean)\<^sup>2)
        in if ssTot = 0 then 0 else 1 - ssRes / ssTot)"

definition calculateSharpeRatio :: "real list \<Rightarrow> real list \<Rightarrow> real" where
  "calculateSharpeRatio prices maValues =
     (let returns = map (\<lambda>i. (prices ! i - prices ! (i - 1)) / prices ! (i - 1))
                      [1 ..< min (length prices) (length maValues)]
      in if length returns = 0 then 0
         else
           let avgReturn = sum_list returns / real (length returns);
               variance = sum_list (map (\<lambda>ret. (ret - avgReturn)\<^sup>2) returns)
                            / real (length returns);
               stdDev = sqrt variance
           in if stdDev = 0 then 0 else avgReturn / stdDev)"

record trade =
  tradeEntry :: real
  tradeExit :: real
  profit :: real
  profitPercent :: real
  win :: bool

text \<open>The simulation loop of \<open>evaluatePerformance\<close>, on the state
  \<open>(inPosition, entryPrice, trades)\<close>.\<close>

definition simulateStep ::
  "real list \<Rightarrow> real list \<Rightarrow> bool \<times> real \<times> trade list \<Rightarrow> nat \<Rightarrow> bool \<times> real \<times> trade list" where
  "simulateStep prices maValues st i =
     (case st of (inPosition, entry, trades) \<Rightarrow>
        let priceIdx = priceIndex prices maValues i in
        if priceIdx > 0 \<and> priceIdx < int (length prices) then
          let prevPrice = prices ! nat (priceIdx - 1);
              curPrice = prices ! nat priceIdx;
              prevMA = maValues ! (i - 1);
              curMA = maValues ! i
          in if \<not> inPosition \<and> prevPrice \<le> prevMA \<and> curPrice > curMA
             then (True, curPrice, trades)
             else if inPosition \<and> prevPrice \<ge> prevMA \<and> curPrice < curMA
             then (let profit' = curPrice - entry;
                       profitPercent' = (profit' / entry) * 100
                   in (False, entry,
                       trades @ [\<lparr>tradeEntry = entry, tradeExit = curPrice, profit = profit',
                                   profitPercent = profitPercent', win = (profit' > 0)\<rparr>]))
             else st
        else st)"

text \<open>The drawdown loop, on the state \<open>(maxDrawdown, peak, runningTotal)\<close>.\<close>

definition drawdownStep :: "real \<times> real \<times> real \<Rightarrow> trade \<Rightarrow> real \<times> real \<times> real" where
  "drawdownStep st t =
     (case st of (maxDrawdown', peak, runningTotal) \<Rightarrow>
        let runningTotal' = runningTotal + profit t;
            peak' = (if runningTotal' > peak then runningTotal' else peak);
            drawdown = peak' - runningTotal'
        in (if drawdown > maxDrawdown' then drawdown else maxDrawdown', peak', runningTotal'))"

definition evaluatePerformance :: "real list \<Rightarrow> real list \<Rightarrow> performance" where
  "evaluatePerformance prices maValues =
     (let trades = snd (snd (foldl (simulateStep prices maValues) (False, 0, [])
                                [1 ..< length maValues]));
          wins' = length (filter win trades);
          losses' = length (filter (\<lambda>t. \<not> win t) trades);
          totalProfit = (\<Sum>t\<leftarrow>trades. if win t then profit t else 0);
          totalLoss = \<bar>\<Sum>t\<leftarrow>trades. if \<not> win t then profit t else 0\<bar>;
          maxDrawdown' = fst (foldl drawdownStep (0, 0, 0) trades)
      in \<lparr>winRate = (if length trades > 0 then real wins' / real (length trades) else 0),
          profitFactor = (if totalLoss > 0 then totalProfit / totalLoss else totalProfit),
          maxDrawdown = maxDrawdown',
          totalTrades = length trades,
          wins = wins',
          losses = losses',
          sharpeRatio = calculateSharpeRatio prices maValues\<rparr>)"

text \<open>A scored configuration, the object \<open>config\<close> pushed to \<open>results\<close>.\<close>

record maConfig =
  configType :: string
  configLength :: nat
  configScore :: real
  configCrossoverScore :: real
  configRSquared :: real
  configPerformance :: performance
  configTimeframe :: string

text \<open>The value returned by \<open>optimizeMAParameters\<close>: the best configuration, with the
  array \<open>allResults\<close> the source attaches to it.\<close>

record strategyResult =
  bestConfig :: maConfig
  allResults :: "maConfig list"

datatype optimizeError = InsufficientHistoricalData | NoValidConfiguration

definition maTypes :: "string list" where
  "maTypes = [''SMA'', ''EMA'', ''WMA'', ''DEMA'', ''TEMA'', ''HMA'', ''VWAP'']"

definition lengthRangeMin :: nat where "lengthRangeMin = 5"
definition lengthRangeMax :: nat where "lengthRangeMax = 30"

text \<open>The combinations in the order of the two nested loops: the type in the outer loop,
  the length ascending in the inner one.\<close>

definition combinations :: "(string \<times> nat) list" where
  "combinations =
     concat (map (\<lambda>maType. map (\<lambda>len. (maType, len)) [lengthRangeMin ..< lengthRangeMax + 1])
               maTypes)"

text \<open>The body of the inner loop up to \<open>results.push(config)\<close>: \<open>None\<close> when the
  combination is skipped.\<close>

definition scoreCombination ::
  "maFunction \<Rightarrow> real list \<Rightarrow> string \<Rightarrow> string \<times> nat \<Rightarrow> maConfig option" where
  "scoreCombination calculateMA prices timeframe combination =
     (case combination of (maType, len) \<Rightarrow>
        (case calculateMA prices maType len of
           None \<Rightarrow> None
         | Some maValues \<Rightarrow>
             if length maValues > 20 then
               let crossoverScore = scoreMA prices maValues len 20;
                   rSquared = calculateRSquared (sliceLast (length maValues) prices) maValues
                                (length maValues);
                   perf = evaluatePerformance prices maValues;
                   compositeScore = calculateCompositeScore crossoverScore rSquared perf timeframe
               in Some \<lparr>configType = maType, configLength = len, configScore = compositeScore,
                          configCrossoverScore = crossoverScore, configRSquared = rSquared,
                          configPerformance = perf, configTimeframe = timeframe\<rparr>
             else None))"

text \<open>One pass of the inner loop on \<open>(bestConfig, results)\<close>; \<open>bestScore\<close> starts at
  \<open>-Infinity\<close>, below every score, and is the score of \<open>bestConfig\<close> afterwards.\<close>

definition optimizeStep ::
  "maFunction \<Rightarrow> real list \<Rightarrow> string \<Rightarrow> maConfig option \<times> maConfig list \<Rightarrow> string \<times> nat
     \<Rightarrow> maConfig option \<times> maConfig list" where
  "optimizeStep calculateMA prices timeframe st combination =
     (case st of (best, results) \<Rightarrow>
        (case scoreCombination calculateMA prices timeframe combination of
           None \<Rightarrow> (best, results)
         | Some config \<Rightarrow>
             ((case best of
                 None \<Rightarrow> Some config
               | Some b \<Rightarrow> if configScore config > configScore b then Some config else Some b),
              results @ [config])))"

definition optimizeMAParameters ::
  "maFunction \<Rightarrow> bar list \<Rightarrow> string \<Rightarrow> optimizeError + strategyResult" where
  "optimizeMAParameters calculateMA historicalData timeframe =
     (if length historicalData < 50 then Inl InsufficientHistoricalData
      else
        let prices = map close historicalData
        in (case foldl (optimizeStep calculateMA prices timeframe) (None, []) combinations of
              (None, results) \<Rightarrow> Inl NoValidConfiguration
            | (Some best, results) \<Rightarrow> Inr \<lparr>bestConfig = best, allResults = results\<rparr>))"

section \<open>strategy.js: signals\<close>

text \<open>
  The \<open>reason\<close> strings of a signal, one constructor per template of the source:
  \<open>Insufficient data: ${prices?.length || 0} < ${maLength + 2}\<close> with its two numbers,
  \<open>Invalid MA parameters\<close>, \<open>Invalid MA calculation\<close>, \<open>Invalid price or MA values\<close>,
  \<open>Waiting for candle close confirmation\<close>,
  \<open>Bullish crossover: Price (p) crossed above type(length) at m\<close> and its bearish
  counterpart with price, type, length and moving average, and \<open>No crossover detected\<close>.
\<close>

datatype signalReason =
  InsufficientData nat nat
| InvalidMAParameters
| InvalidMACalculation
| InvalidPriceOrMAValues
| WaitingForCandleClose
| BullishCrossover real string nat real
| BearishCrossover real string nat real
| NoCrossoverDetected

text \<open>The object returned by \<open>detectCrossover\<close> when \<open>detected\<close> is true.\<close>

record crossoverResult =
  direction :: signalAction
  strength :: real
  crossoverReason :: signalReason
  priceChange :: real
  maChange :: real
  crossoverGap :: real

text \<open>The object returned by \<open>calculateSignals\<close>; an absent \<open>pending\<close> is \<open>False\<close>, an absent
  \<open>crossover\<close> is \<open>None\<close>. The fields that repeat arguments or read the clock are left out.\<close>

record tradingSignal =
  action :: signalAction
  signalConfidence :: real
  reason :: signalReason
  valid :: bool
  pending :: bool
  crossover :: "crossoverResult option"

text \<open>The candle passed as \<open>candleData\<close>: whether the current time is past its end, and its
  close.\<close>

record candle =
  candleEnded :: bool
  candleClose :: real

definition validatePriceData :: "real list \<Rightarrow> bool" where
  "validatePriceData values = list_all (\<lambda>value. value > 0) values"

definition validateCandleClose :: "candle option \<Rightarrow> real \<Rightarrow> bool" where
  "validateCandleClose candleData curPrice =
     (case candleData of
        None \<Rightarrow> True
      | Some c \<Rightarrow>
          if candleEnded c
          then (let priceDiff = \<bar>curPrice - candleClose c\<bar> / curPrice in priceDiff < 0.001)
          else False)"

definition calculateCrossoverStrength :: "real \<Rightarrow> real \<Rightarrow> real \<Rightarrow> real \<Rightarrow> bool \<Rightarrow> real" where
  "calculateCrossoverStrength prevPrice curPrice prevMA curMA bullish =
     (let priceMovement = \<bar>curPrice - prevPrice\<bar> / prevPrice;
          maMovement = \<bar>curMA - prevMA\<bar> / prevMA;
          gap = (if bullish then (curPrice - curMA) / curMA else (curMA - curPrice) / curMA);
          strength' = min 1 ((priceMovement * 2 + maMovement + gap * 0.5) / 3)
      in max 0 strength')"

definition detectCrossover ::
  "real \<Rightarrow> real \<Rightarrow> real \<Rightarrow> real \<Rightarrow> string \<Rightarrow> nat \<Rightarrow> crossoverResult option" where
  "detectCrossover prevPrice curPrice prevMA curMA maType maLength =
     (let bullishCrossover = (prevPrice \<le> prevMA \<and> curPrice > curMA);
          bearishCrossover = (prevPrice \<ge> prevMA \<and> curPrice < curMA)
      in if bullishCrossover then
           Some \<lparr>direction = BUY,
                 strength = calculateCrossoverStrength prevPrice curPrice prevMA curMA True,
                 crossoverReason = BullishCrossover curPrice maType maLength curMA,
                 priceChange = curPrice - prevPrice,
                 maChange = curMA - prevMA,
                 crossoverGap = curPrice - curMA\<rparr>
         else if bearishCrossover then
           Some \<lparr>direction = SELL,
                 strength = calculateCrossoverStrength prevPrice curPrice prevMA curMA False,
                 crossoverReason = BearishCrossover curPrice maType maLength curMA,
                 priceChange = curPrice - prevPrice,
                 maChange = curMA - prevMA,
                 crossoverGap = curMA - curPrice\<rparr>
         else None)"

definition validateSignalStrength :: "real \<Rightarrow> crossoverResult \<Rightarrow> real" where
  "validateSignalStrength baseConfidence cr =
     (let adjusted1 = (if strength cr \<noteq> 0 then baseConfidence * (0.5 + strength cr * 0.5)
                       else baseConfidence);
          adjusted2 = (if crossoverGap cr \<noteq> 0
                       then (let gapFactor = min 1 (\<bar>crossoverGap cr\<bar> / 100)
                             in adjusted1 * (0.8 + gapFactor * 0.2))
                       else adjusted1)
      in max 0 (min 100 (mathRound adjusted2)))"

definition calculateSignalConfidence :: "real list \<Rightarrow> real list \<Rightarrow> real" where
  "calculateSignalConfidence prices maValues =
     (if length prices < 10 then 0
      else
        let recentPrices = sliceLast 10 prices;
            recentMA = sliceLast 10 maValues;
            alignment = length (filter (\<lambda>i. recentPrices ! i > recentMA ! i)
                                  [0 ..< min (length recentPrices) (length recentMA)]);
            confidence' = min 100 (max 0 ((real alignment / real (length recentPrices)) * 100))
        in mathRound confidence')"

definition holdSignal :: "signalReason \<Rightarrow> bool \<Rightarrow> bool \<Rightarrow> tradingSignal" where
  "holdSignal r v p = \<lparr>action = HOLD, signalConfidence = 0, reason = r, valid = v,
                        pending = p, crossover = None\<rparr>"

text \<open>\<open>calculateSignals\<close>. The argument \<open>prices\<close> is \<open>None\<close> when it is \<open>null\<close> or not an
  array.\<close>

definition calculateSignals ::
  "maFunction \<Rightarrow> real list option \<Rightarrow> string \<Rightarrow> nat \<Rightarrow> candle option \<Rightarrow> tradingSignal" where
  "calculateSignals calculateMA prices maType maLength candleData =
     (case prices of
        None \<Rightarrow> holdSignal (InsufficientData 0 (maLength + 2)) False False
      | Some ps \<Rightarrow>
          if length ps < maLength + 2
          then holdSignal (InsufficientData (length ps) (maLength + 2)) False False
          else if maType = [] \<or> maLength = 0
          then holdSignal InvalidMAParameters False False
          else
            (case calculateMA ps maType maLength of
               None \<Rightarrow> holdSignal InvalidMACalculation False False
             | Some maValues \<Rightarrow>
                 if length maValues < 2 then holdSignal InvalidMACalculation False False
                 else
                   let curPrice = ps ! (length ps - 1);
                       prevPrice = ps ! (length ps - 2);
                       curMA = maValues ! (length maValues - 1);
                       prevMA = maValues ! (length maValues - 2)
                   in if \<not> validatePriceData [curPrice, prevPrice, curMA, prevMA]
                      then holdSignal InvalidPriceOrMAValues False False
                      else if candleData \<noteq> None \<and> \<not> validateCandleClose candleData curPrice
                      then holdSignal WaitingForCandleClose True True
                      else
                        (case detectCrossover prevPrice curPrice prevMA curMA maType maLength of
                           Some cr \<Rightarrow>
                             let confidence' = calculateSignalConfidence ps maValues;
                                 validatedConfidence = validateSignalStrength confidence' cr
                             in \<lparr>action = direction cr, signalConfidence = validatedConfidence,
                                 reason = crossoverReason cr, valid = True, pending = False,
                                 crossover = Some cr\<rparr>
                         | None \<Rightarrow> holdSignal NoCrossoverDetected True False)))"

text \<open>The winner among the results, as the specification words it: an entry of the greatest
  score, and the first one of that score in the order of the results; no winner when there
  are no results.\<close>

definition firstMaximum :: "maConfig option \<Rightarrow> maConfig list \<Rightarrow> bool" where
  "firstMaximum best results =
     (case best of
        None \<Rightarrow> results = []
      | Some b \<Rightarrow>
          (\<exists>i < length results. results ! i = b
             \<and> (\<forall>j < length results. configScore (results ! j) \<le> configScore b)
             \<and> (\<forall>j < i. configScore (results ! j) < configScore b)))"

section \<open>ml-risk-manager.js\<close>

text \<open>The constants set by the constructor of \<open>MLRiskManager\<close>.\<close>

definition volatilityWindow :: nat where "volatilityWindow = 50"
definition atrMultiplier :: real where "atrMultiplier = 1.5"
definition riskRewardRatio :: real where "riskRewardRatio = 2.0"
definition maxStopLossPercent :: real where "maxStopLossPercent = 0.5"
definition maxTakeProfitPercent :: real where "maxTakeProfitPercent = 0.5"
definition minStopLossPercent :: real where "minStopLossPercent = 0.2"
definition minTakeProfitPercent :: real where "minTakeProfitPercent = 0.3"
definition maxPositionPercent :: real where "maxPositionPercent = 10"
definition minPositionSize :: real where "minPositionSize = 0.001"

record feeTier =
  volume :: real
  maker :: real
  taker :: real

definition feeTiers :: "feeTier list" where
  "feeTiers =
     [\<lparr>volume = 0, maker = 0.0015, taker = 0.0025\<rparr>,
      \<lparr>volume = 100000, maker = 0.0012, taker = 0.0022\<rparr>,
      \<lparr>volume = 500000, maker = 0.0010, taker = 0.0020\<rparr>,
      \<lparr>volume = 1000000, maker = 0.0008, taker = 0.0018\<rparr>,
      \<lparr>volume = 10000000, maker = 0.0005, taker = 0.0015\<rparr>,
      \<lparr>volume = 25000000, maker = 0.0002, taker = 0.0013\<rparr>,
      \<lparr>volume = 50000000, maker = 0.0002, taker = 0.0012\<rparr>,
      \<lparr>volume = 100000000, maker = 0.0000, taker = 0.0010\<rparr>]"

text \<open>The loop of \<open>getFeeRate\<close> runs from the last tier down and stops at the first tier
  whose volume threshold is reached; \<open>tier\<close> starts as \<open>feeTiers[0]\<close>.\<close>

fun feeTierLoop :: "feeTier \<Rightarrow> feeTier list \<Rightarrow> real \<Rightarrow> feeTier" where
  "feeTierLoop tier [] volume30Day = tier"
| "feeTierLoop tier (t # ts) volume30Day =
     (if volume30Day \<ge> volume t then t else feeTierLoop tier ts volume30Day)"

definition getFeeRate :: "real \<Rightarrow> bool \<Rightarrow> real" where
  "getFeeRate volume30Day isMaker =
     (let tier = feeTierLoop (feeTiers ! 0) (rev feeTiers) volume30Day
      in if isMaker then maker tier else taker tier)"

record tradeFees =
  buyFee :: real
  buyFeeCost :: real
  sellFee :: real
  totalFees :: real
  feePercent :: real
  buyFeeRate :: real
  sellFeeRate :: real

definition calculateTradeFees :: "real \<Rightarrow> real \<Rightarrow> real \<Rightarrow> real \<Rightarrow> tradeFees" where
  "calculateTradeFees positionSize entryPrice exitPrice volume30Day =
     (let buyFeeRate' = getFeeRate volume30Day False;
          sellFeeRate' = getFeeRate volume30Day False;
          buyFee' = positionSize * buyFeeRate';
          buyFeeCost' = buyFee' * entryPrice;
          sellValue = positionSize * exitPrice;
          sellFee' = sellValue * sellFeeRate';
          totalFees' = buyFeeCost' + sellFee';
          positionValue = positionSize * entryPrice;
          feePercent' = (totalFees' / positionValue) * 100
      in \<lparr>buyFee = buyFee', buyFeeCost = buyFeeCost', sellFee = sellFee',
          totalFees = totalFees', feePercent = feePercent',
          buyFeeRate = buyFeeRate', sellFeeRate = sellFeeRate'\<rparr>)"

text \<open>The true range of bar \<open>i\<close> against the close of bar \<open>i - 1\<close>.\<close>

definition trueRange :: "bar \<Rightarrow> bar \<Rightarrow> real" where
  "trueRange prev cur =
     (let high' = (if high cur = 0 then close cur else high cur);
          low' = (if low cur = 0 then close cur else low cur);
          prevClose = close prev
      in max (high' - low') (max \<bar>high' - prevClose\<bar> \<bar>low' - prevClose\<bar>))"

text \<open>\<open>calculateATR\<close> returns \<open>null\<close>, here \<open>None\<close>, on fewer than \<open>period + 1\<close> bars.\<close>

definition calculateATR :: "bar list \<Rightarrow> nat \<Rightarrow> real option" where
  "calculateATR priceData period =
     (if length priceData < period + 1 then None
      else
        let trueRanges = map2 trueRange priceData (tl priceData);
            recentTR = sliceLast period trueRanges;
            atr = sum_list recentTR / real period
        in Some atr)"

definition calculateVolatility :: "bar list \<Rightarrow> real" where
  "calculateVolatility priceData =
     (let returns = map2 (\<lambda>prev cur. (close cur - close prev) / close prev)
                      priceData (tl priceData);
          mean = sum_list returns / real (length returns);
          variance = sum_list (map (\<lambda>r. (r - mean)\<^sup>2) returns) / real (length returns)
      in sqrt variance)"

definition calculateTrend :: "bar list \<Rightarrow> real" where
  "calculateTrend priceData =
     (let prices = map close priceData;
          n = length prices;
          sumX = (\<Sum>i\<leftarrow>[0..<n]. real i);
          sumY = (\<Sum>i\<leftarrow>[0..<n]. prices ! i);
          sumXY = (\<Sum>i\<leftarrow>[0..<n]. real i * prices ! i);
          sumX2 = (\<Sum>i\<leftarrow>[0..<n]. real i * real i);
          slope = (real n * sumXY - sumX * sumY) / (real n * sumX2 - sumX * sumX);
          avgPrice = sumY / real n
      in max (-1) (min 1 (slope / avgPrice * 100)))"

text \<open>An error raised by the JavaScript runtime: the \<open>TypeError\<close> with the message
  \<open>Assignment to constant variable.\<close>\<close>

datatype jsError = AssignmentToConstantVariable

text \<open>
  The fallback object returned by \<open>calculateOptimalTPSL\<close>: a stop loss, a take profit and
  the confidence 0.5 (its \<open>method\<close> is the string \<open>fallback\<close>).
\<close>

datatype tpslResult =
  Fallback (stopLoss: real) (takeProfit: real) (confidence: real)

text \<open>
  \<open>calculateOptimalTPSL\<close>. The test \<open>!atr\<close> holds for \<open>null\<close> and for the number 0, and
  the fallback object is returned there. Past that test the source declares
  \<open>const stopLoss = currentPrice - stopLossDistance\<close> and, after the timeframe adjustment,
  assigns \<open>stopLoss = currentPrice * (1 - stopLossPercent / 100)\<close>. The statements before
  the assignment compute numbers from the bars (\<open>calculateVolatility\<close>, \<open>calculateTrend\<close>,
  \<open>calculateSimpleMA\<close>, arithmetic, \<open>Math.max\<close>, \<open>Math.min\<close>) and raise nothing; the
  assignment raises the \<open>TypeError\<close>. The statements after it, which would adjust the take
  profit for fees and build the object of method \<open>ml-atr-fees\<close>, are never reached.
\<close>

definition calculateOptimalTPSL ::
  "bar list \<Rightarrow> real \<Rightarrow> string \<Rightarrow> nat \<Rightarrow> real \<Rightarrow> real \<Rightarrow> string \<Rightarrow> jsError + tpslResult" where
  "calculateOptimalTPSL priceData currentPrice maType maLength positionSize volume30Day timeframe =
     (case calculateATR priceData 14 of
        None \<Rightarrow> Inr (Fallback (currentPrice * 0.985) (currentPrice * 1.03) 0.5)
      | Some atr \<Rightarrow>
          if atr = 0 then Inr (Fallback (currentPrice * 0.985) (currentPrice * 1.03) 0.5)
          else Inl AssignmentToConstantVariable)"

record accountInfo =
  equity :: real
  buyingPower :: real

text \<open>The object returned by \<open>calculatePositionSize\<close>, without its \<open>fees\<close> display strings;
  \<open>actualRiskPercent\<close> is formatted with \<open>toFixed(2)\<close>.\<close>

record sizeResult =
  size :: real
  riskAmount :: real
  actualRisk :: real
  actualRiskPercent :: real
  maxAllowed :: real

definition sizeTimeframeMultiplier :: "string \<Rightarrow> real" where
  "sizeTimeframeMultiplier timeframe =
     (if timeframe = ''1m'' then 1.5
      else if timeframe = ''5m'' then 1.0
      else if timeframe = ''15m'' then 0.7
      else 1.0)"

definition calculatePositionSize ::
  "accountInfo \<Rightarrow> real \<Rightarrow> real \<Rightarrow> real \<Rightarrow> real \<Rightarrow> real \<Rightarrow> string \<Rightarrow> sizeResult" where
  "calculatePositionSize account riskPercent entryPrice stopLoss' volatility volume30Day timeframe =
     (let availableCapital = buyingPower account;
          riskAmount0 = equity account * (riskPercent / 100);
          volatilityAdjustment = max 0.5 (min 1.5 (1 / (volatility * 50)));
          riskAmount1 = riskAmount0 * volatilityAdjustment;
          riskAmount' = riskAmount1 * sizeTimeframeMultiplier timeframe;
          stopDistance = \<bar>entryPrice - stopLoss'\<bar>;
          positionSize0 = riskAmount' / stopDistance;
          fees = calculateTradeFees positionSize0 entryPrice stopLoss' volume30Day;
          adjustedRiskAmount = riskAmount' - totalFees fees;
          positionSize1 =
            (if adjustedRiskAmount > 0 then adjustedRiskAmount / stopDistance else positionSize0);
          maxSize = min (availableCapital * (maxPositionPercent / 100) / entryPrice)
                        (equity account * 0.15 / entryPrice);
          positionSize = max minPositionSize (min maxSize positionSize1);
          finalFees = calculateTradeFees positionSize entryPrice stopLoss' volume30Day;
          actualRisk' = stopDistance * positionSize + totalFees finalFees;
          actualRiskPercent' = (actualRisk' / equity account) * 100
      in \<lparr>size = positionSize, riskAmount = riskAmount', actualRisk = actualRisk',
          actualRiskPercent = toFixed2 actualRiskPercent', maxAllowed = maxSize\<rparr>)"

section \<open>The trading loop of BitFlowBot.startTrading\<close>

text \<open>
  The loop variables \<open>previousPriceVsMA\<close> (\<open>null\<close> is \<open>None\<close>),
  \<open>initializationWaitTicks\<close>, \<open>initializationComplete\<close> and \<open>position\<close> (\<open>null\<close> is
  \<open>None\<close>) form the state. One iteration of \<open>while (this.isRunning)\<close> is one step.
\<close>

datatype priceVsMA = Above | Below | At

record position =
  entryPrice :: real
  quantity :: real
  positionStopLoss :: real
  positionTakeProfit :: real
  orderId :: string

record botState =
  previousPriceVsMA :: "priceVsMA option"
  initializationWaitTicks :: nat
  initializationComplete :: bool
  position :: "position option"

text \<open>The fields of the bot the loop reads and never writes.\<close>

record botConfig =
  currentTimeframe :: string
  historicalData :: "bar list"
  useMLRisk :: bool
  positionSizing :: string
  configStopLossPercent :: real
  configRiskRewardRatio :: real
  account :: accountInfo
  strategyType :: string
  strategyLength :: nat

text \<open>
  What one iteration reads: the fresh price \<open>currentPrice\<close>, the moving average
  \<open>currentMA\<close> and the action of the signal, which \<open>calculateCurrentMA\<close> and
  \<open>calculateSignals\<close> compute from the price history, and the \<open>success\<close> flag and order
  id the order manager returns for the order of this iteration, if one is submitted. They
  are inputs of the step, so a property of the step holds for every moving average and
  every signal. \<open>executeBuyOrder\<close> and \<open>executeSellOrder\<close> catch their own errors and
  return \<open>success: false\<close>. \<open>TickError\<close> is an iteration whose \<open>try\<close> block throws
  before the loop variables are touched (the price cannot be fetched): the \<open>catch\<close> block
  leaves them as they are.
\<close>

record observation =
  tickPrice :: real
  tickMA :: real
  tickSignal :: signalAction
  orderSuccess :: bool
  resultOrderId :: string

datatype tickInput = TickError | Observed observation

text \<open>The calls \<open>executeBuyOrder(symbol, positionSize, ...)\<close> and
  \<open>executeSellOrder(symbol, position.quantity)\<close>, by their quantity.\<close>

datatype orderCall = BuyOrder real | SellOrder real

definition initialState :: botState where
  "initialState = \<lparr>previousPriceVsMA = None, initializationWaitTicks = 10,
                    initializationComplete = False, position = None\<rparr>"

text \<open>\<open>isAbove ? 'above' : isBelow ? 'below' : 'at'\<close>\<close>

definition relationOf :: "real \<Rightarrow> real \<Rightarrow> priceVsMA" where
  "relationOf price ma = (if price > ma then Above else if price < ma then Below else At)"

definition maxVolatilityThreshold :: "string \<Rightarrow> real" where
  "maxVolatilityThreshold timeframe =
     (if timeframe = ''1m'' then 0.05 else if timeframe = ''5m'' then 0.03 else 0.02)"

text \<open>Stop loss, take profit and position size of a buy: the ML branch or the manual one.
  An error raised by \<open>calculateOptimalTPSL\<close> passes through.\<close>

definition entryLevels :: "botConfig \<Rightarrow> real \<Rightarrow> jsError + real \<times> real \<times> real" where
  "entryLevels cfg price =
     (if useMLRisk cfg \<and> positionSizing cfg = ''ml'' then
        (case calculateOptimalTPSL (historicalData cfg) price (strategyType cfg)
                (strategyLength cfg) 0.001 0 (currentTimeframe cfg) of
           Inl e \<Rightarrow> Inl e
         | Inr mlResult \<Rightarrow>
             let stopLoss' = stopLoss mlResult;
                 takeProfit' = takeProfit mlResult;
                 positionResult = calculatePositionSize (account cfg) 1.0 price stopLoss'
                                    (calculateVolatility (sliceLast 50 (historicalData cfg))) 0
                                    (currentTimeframe cfg)
             in Inr (stopLoss', takeProfit', size positionResult))
      else
        let slMultiplier = 1 - configStopLossPercent cfg / 100;
            tpMultiplier = 1 + (configStopLossPercent cfg * configRiskRewardRatio cfg) / 100
        in Inr (price * slMultiplier, price * tpMultiplier, 0.001))"

text \<open>The end of an iteration that raises nothing: \<open>position\<close> as the branch left it, and
  \<open>previousPriceVsMA\<close> set to the current relation.\<close>

definition endOfIteration ::
  "botState \<Rightarrow> observation \<Rightarrow> position option \<Rightarrow> orderCall option \<Rightarrow> botState \<times> orderCall option" where
  "endOfIteration s obs position' call =
     (s\<lparr>position := position',
         previousPriceVsMA := Some (relationOf (tickPrice obs) (tickMA obs))\<rparr>,
      call)"

text \<open>The part of the iteration after the initialization block: the volatility filter, the
  buy, the exit at take profit or stop loss, and the update of \<open>previousPriceVsMA\<close>. An
  error raised while the levels of a buy are computed leaves the block before any order
  call and before any assignment to a loop variable.\<close>

definition tradeSection ::
  "botConfig \<Rightarrow> botState \<Rightarrow> observation \<Rightarrow> jsError + botState \<times> orderCall option" where
  "tradeSection cfg s obs =
     (let isAbove = tickPrice obs > tickMA obs;
          crossedAbove = (previousPriceVsMA s = Some Below \<and> isAbove);
          volatility = calculateVolatility (sliceLast 50 (historicalData cfg));
          isHighVolatility = volatility > maxVolatilityThreshold (currentTimeframe cfg)
      in if isHighVolatility \<and> (currentTimeframe cfg = ''1m'' \<or> currentTimeframe cfg = ''5m'')
         then Inr (endOfIteration s obs (position s) None)
         else if tickSignal obs = BUY \<and> position s = None \<and> crossedAbove then
           (case entryLevels cfg (tickPrice obs) of
              Inl e \<Rightarrow> Inl e
            | Inr (stopLoss', takeProfit', positionSize) \<Rightarrow>
                Inr (endOfIteration s obs
                       (if orderSuccess obs
                        then Some \<lparr>entryPrice = tickPrice obs, quantity = positionSize,
                                   positionStopLoss = stopLoss', positionTakeProfit = takeProfit',
                                   orderId = resultOrderId obs\<rparr>
                        else None)
                       (Some (BuyOrder positionSize))))
         else
           (case position s of
              None \<Rightarrow> Inr (endOfIteration s obs None None)
            | Some pos \<Rightarrow>
                let hitTP = tickPrice obs \<ge> positionTakeProfit pos;
                    hitSL = tickPrice obs \<le> positionStopLoss pos
                in if hitTP \<or> hitSL
                   then Inr (endOfIteration s obs (if orderSuccess obs then None else Some pos)
                               (Some (SellOrder (quantity pos))))
                   else Inr (endOfIteration s obs (Some pos) None)))"

text \<open>The \<open>catch\<close> block of the loop: the error is logged, no order has been submitted, and
  the loop variables keep the values they had when the error was raised. (The block ends
  the process only on a message containing \<open>Failed to get\<close> or \<open>Request failed\<close>.)\<close>

definition catchBlock ::
  "botState \<Rightarrow> jsError + botState \<times> orderCall option \<Rightarrow> botState \<times> orderCall option" where
  "catchBlock s result = (case result of Inl e \<Rightarrow> (s, None) | Inr r \<Rightarrow> r)"

text \<open>One iteration: the baseline on the first tick, the countdown, then the trade section.\<close>

definition tradingTick :: "botConfig \<Rightarrow> botState \<Rightarrow> tickInput \<Rightarrow> botState \<times> orderCall option" where
  "tradingTick cfg s input =
     (case input of
        TickError \<Rightarrow> (s, None)
      | Observed obs \<Rightarrow>
          let rel = relationOf (tickPrice obs) (tickMA obs) in
          (case previousPriceVsMA s of
             None \<Rightarrow> (s\<lparr>previousPriceVsMA := Some rel\<rparr>, None)
           | Some prev \<Rightarrow>
               if initializationWaitTicks s > 0 then
                 let n = initializationWaitTicks s - 1 in
                 if n > 0
                 then (s\<lparr>initializationWaitTicks := n, previousPriceVsMA := Some rel\<rparr>, None)
                 else
                   let s1 = s\<lparr>initializationWaitTicks := n, initializationComplete := True,
                               previousPriceVsMA := Some rel\<rparr>
                   in catchBlock s1 (tradeSection cfg s1 obs)
               else catchBlock s (tradeSection cfg s obs)))"

text \<open>The loop on a finite sequence of iterations: the final state and the order calls made,
  one entry per iteration.\<close>

fun runTicks :: "botConfig \<Rightarrow> botState \<Rightarrow> tickInput list \<Rightarrow> botState \<times> orderCall option list" where
  "runTicks cfg s [] = (s, [])"
| "runTicks cfg s (t # ts) =
     (case tradingTick cfg s t of
        (s', call) \<Rightarrow> (case runTicks cfg s' ts of (s'', calls) \<Rightarrow> (s'', call # calls)))"

text \<open>A bar with a true range of 2 against a close of 100, for the examples below.\<close>

definition exampleBar :: bar where "exampleBar = \<lparr>high = 101, low = 99, close = 100\<rparr>"

text \<open>The position sizing scenario of the specification, and an input with a stop 0.4%
  below the entry and a risk of 0.1% of equity.\<close>

definition scenarioAccount :: accountInfo where
  "scenarioAccount = \<lparr>equity = 10000, buyingPower = 20000\<rparr>"

definition scenarioSize :: sizeResult where
  "scenarioSize = calculatePositionSize scenarioAccount 1 100 99 0.02 0 ''5m''"

definition tightStopSize :: sizeResult where
  "tightStopSize = calculatePositionSize scenarioAccount 0.1 100 99.6 0.02 0 ''5m''"

text \<open>A moving average for the examples: the mean of each window of \<open>len\<close> prices, for
  every type.\<close>

definition windowMean :: maFunction where
  "windowMean prices maType len =
     (if len < 1 \<or> len > length prices then None
      else Some (map (\<lambda>i. sum_list (take len (drop i prices)) / real len)
                   [0 ..< length prices - len + 1]))"

text \<open>Example inputs of the trading loop: a flat and a volatile history, a configuration
  with manual stop loss and take profit, a tick below the moving average, a tick above it
  with a BUY signal, and the state after initialization with the price below.\<close>

definition flatHistory :: "bar list" where
  "flatHistory = [exampleBar, exampleBar, exampleBar]"

definition volatileHistory :: "bar list" where
  "volatileHistory = [\<lparr>high = 101, low = 99, close = 100\<rparr>,
                      \<lparr>high = 106, low = 100, close = 105\<rparr>,
                      \<lparr>high = 105, low = 99, close = 100\<rparr>]"

definition manualConfig :: "string \<Rightarrow> bar list \<Rightarrow> botConfig" where
  "manualConfig timeframe history =
     \<lparr>currentTimeframe = timeframe, historicalData = history, useMLRisk = False,
      positionSizing = ''ml'', configStopLossPercent = 1.5, configRiskRewardRatio = 2.0,
      account = scenarioAccount, strategyType = ''SMA'', strategyLength = 14\<rparr>"

definition belowTick :: tickInput where
  "belowTick = Observed \<lparr>tickPrice = 99, tickMA = 100, tickSignal = HOLD,
                           orderSuccess = True, resultOrderId = ''none''\<rparr>"

definition crossTick :: tickInput where
  "crossTick = Observed \<lparr>tickPrice = 101, tickMA = 100, tickSignal = BUY,
                           orderSuccess = True, resultOrderId = ''order-1''\<rparr>"

definition armedBelow :: botState where
  "armedBelow = \<lparr>previousPriceVsMA = Some Below, initializationWaitTicks = 0,
                  initializationComplete = True, position = None\<rparr>"

section \<open>Properties of the composite score\<close>

lemma max_min_clamp: "max 0 (min 1 x) = clamp x 0 1"
  by (simp add: clamp_def max_def min_def)

lemma clamp_unit: "0 \<le> clamp x 0 1 \<and> clamp x 0 1 \<le> 1"
  by (simp add: clamp_def)

lemma scoreTimeframeMultiplier_range:
  "0 \<le> scoreTimeframeMultiplier tf \<and> scoreTimeframeMultiplier tf \<le> 1"
  by (simp add: scoreTimeframeMultiplier_def)


section \<open>Properties of the optimizer\<close>

lemma optimizeStep_results:
  "snd (optimizeStep f prices tf (best, results) c)
     = results @ (case scoreCombination f prices tf c of None \<Rightarrow> [] | Some config \<Rightarrow> [config])"
  by (simp add: optimizeStep_def split: option.splits)

lemma optimizeStep_firstMaximum:
  assumes "firstMaximum best results"
    and "optimizeStep f prices tf (best, results) c = (best', results')"
  shows "firstMaximum best' results'"
proof (cases "scoreCombination f prices tf c")
  case None
  with assms show ?thesis by (simp add: optimizeStep_def)
next
  case (Some config)
  then have res: "results' = results @ [config]"
    using assms(2) by (simp add: optimizeStep_def)
  show ?thesis
  proof (cases best)
    case None
    with assms(1) have "results = []" by (simp add: firstMaximum_def)
    moreover from None Some assms(2) have "best' = Some config" by (simp add: optimizeStep_def)
    ultimately show ?thesis using res by (simp add: firstMaximum_def)
  next
    case (Some b)
    with assms(1) obtain i where i: "i < length results" "results ! i = b"
      "\<forall>j < length results. configScore (results ! j) \<le> configScore b"
      "\<forall>j < i. configScore (results ! j) < configScore b"
      by (auto simp: firstMaximum_def)
    show ?thesis
    proof (cases "configScore config > configScore b")
      case True
      with Some \<open>scoreCombination f prices tf c = Some config\<close> assms(2)
      have b': "best' = Some config" by (simp add: optimizeStep_def)
      have "\<forall>j < length results'. configScore (results' ! j) \<le> configScore config"
        using i(3) True res by (fastforce simp: nth_append less_Suc_eq)
      moreover have "\<forall>j < length results. configScore (results' ! j) < configScore config"
        using i(3) True res by (fastforce simp: nth_append)
      ultimately show ?thesis
        using b' res by (auto simp: firstMaximum_def intro!: exI [of _ "length results"])
    next
      case False
      with Some \<open>scoreCombination f prices tf c = Some config\<close> assms(2)
      have b': "best' = Some b" by (simp add: optimizeStep_def)
      have "\<forall>j < length results'. configScore (results' ! j) \<le> configScore b"
        using i(3) False res by (auto simp: nth_append less_Suc_eq)
      moreover have "results' ! i = b" using i(1,2) res by (simp add: nth_append)
      moreover have "\<forall>j < i. configScore (results' ! j) < configScore b"
        using i(1,4) res by (auto simp: nth_append)
      ultimately show ?thesis
        using b' i(1) res by (auto simp: firstMaximum_def intro!: exI [of _ i])
    qed
  qed
qed

lemma optimize_fold:
  assumes "firstMaximum best results"
    and "foldl (optimizeStep f prices tf) (best, results) cs = (best', results')"
  shows "firstMaximum best' results'
       \<and> results' = results @ List.map_filter (scoreCombination f prices tf) cs"
  using assms
proof (induction cs arbitrary: best results)
  case Nil
  then show ?case by (simp add: List.map_filter_simps)
next
  case (Cons c cs)
  obtain b1 r1 where step: "optimizeStep f prices tf (best, results) c = (b1, r1)"
    by (cases "optimizeStep f prices tf (best, results) c")
  have fm: "firstMaximum b1 r1" using optimizeStep_firstMaximum [OF Cons.prems(1) step] .
  have r1: "r1 = results @ (case scoreCombination f prices tf c of None \<Rightarrow> [] | Some config \<Rightarrow> [config])"
    using optimizeStep_results [of f prices tf best results c] step by simp
  from Cons.prems(2) step have "foldl (optimizeStep f prices tf) (b1, r1) cs = (best', results')"
    by simp
  from Cons.IH [OF fm this] r1 show ?case
    by (auto simp: List.map_filter_simps split: option.splits)
qed

lemma optimize_characterisation:
  assumes "optimizeMAParameters f bars tf = Inr r"
  shows "50 \<le> length bars
       \<and> allResults r = List.map_filter (scoreCombination f (map close bars) tf) combinations
       \<and> firstMaximum (Some (bestConfig r)) (allResults r)"
proof -
  have len: "50 \<le> length bars"
    using assms by (simp add: optimizeMAParameters_def split: if_splits)
  obtain b rs where fold: "foldl (optimizeStep f (map close bars) tf) (None, []) combinations = (b, rs)"
    by (cases "foldl (optimizeStep f (map close bars) tf) (None, []) combinations")
  have "firstMaximum None []" by (simp add: firstMaximum_def)
  from optimize_fold [OF this fold]
  have fm: "firstMaximum b rs"
    and rs: "rs = List.map_filter (scoreCombination f (map close bars) tf) combinations"
    by blast+
  from assms len fold have "b = Some (bestConfig r) \<and> rs = allResults r"
    by (auto simp: optimizeMAParameters_def Let_def split: option.splits)
  with fm rs len show ?thesis by simp
qed

lemma optimize_succeeds:
  assumes "50 \<le> length bars" "c \<in> set combinations"
    and "scoreCombination f (map close bars) tf c \<noteq> None"
  shows "\<exists>r. optimizeMAParameters f bars tf = Inr r"
proof -
  obtain b rs where fold: "foldl (optimizeStep f (map close bars) tf) (None, []) combinations = (b, rs)"
    by (cases "foldl (optimizeStep f (map close bars) tf) (None, []) combinations")
  have "firstMaximum None []" by (simp add: firstMaximum_def)
  from optimize_fold [OF this fold]
  have fm: "firstMaximum b rs"
    and rs: "rs = List.map_filter (scoreCombination f (map close bars) tf) combinations"
    by blast+
  from assms(2,3) have "rs \<noteq> []"
    unfolding rs by (auto simp: List.map_filter_def filter_empty_conv)
  with fm obtain best where "b = Some best" by (cases b) (auto simp: firstMaximum_def)
  with fold assms(1) show ?thesis by (simp add: optimizeMAParameters_def)
qed

lemma combinations_length: "length combinations = 182"
  by (simp add: combinations_def maTypes_def lengthRangeMin_def lengthRangeMax_def)

lemma first_combination: "(''SMA'', 5) \<in> set combinations"
  by (simp add: combinations_def maTypes_def lengthRangeMin_def lengthRangeMax_def)

lemma example_scored:
  "scoreCombination windowMean (map close (replicate 50 exampleBar)) tf (''SMA'', 5) \<noteq> None"
  by (simp add: scoreCombination_def windowMean_def Let_def)

lemma firstMaximum_Max:
  assumes "firstMaximum (Some b) results"
  shows "b \<in> set results \<and> configScore b = Max (configScore ` set results)"
proof -
  from assms obtain i where i: "i < length results" "results ! i = b"
      "\<forall>j < length results. configScore (results ! j) \<le> configScore b"
    by (auto simp: firstMaximum_def)
  then have mem: "b \<in> set results" by (metis nth_mem)
  have "\<forall>c \<in> set results. configScore c \<le> configScore b"
    using i(3) by (auto simp: in_set_conv_nth)
  with mem have "Max (configScore ` set results) = configScore b"
    by (intro Max_eqI) auto
  with mem show ?thesis by simp
qed

lemma nth_concat_map_uniform:
  "t < length ts \<Longrightarrow> l < length ls \<Longrightarrow>
   concat (map (\<lambda>x. map (g x) ls) ts) ! (t * length ls + l) = g (ts ! t) (ls ! l)"
proof (induction ts arbitrary: t)
  case Nil
  then show ?case by simp
next
  case (Cons x xs)
  show ?case
  proof (cases t)
    case 0
    with Cons.prems show ?thesis by (simp add: nth_append)
  next
    case (Suc t')
    with Cons.prems have "t' < length xs" by simp
    from Cons.IH [OF this Cons.prems(2)] Suc show ?thesis
      by (simp add: nth_append)
  qed
qed

lemma combinations_order:
  assumes "t < 7" "l < 26"
  shows "combinations ! (t * 26 + l) = (maTypes ! t, 5 + l)"
proof -
  let ?ls = "[lengthRangeMin ..< lengthRangeMax + 1]"
  have len: "length ?ls = 26"
    by (simp only: length_upt lengthRangeMin_def lengthRangeMax_def)
  have nth: "?ls ! l = 5 + l"
    unfolding lengthRangeMin_def lengthRangeMax_def using assms(2) by (intro nth_upt) simp
  have t: "t < length maTypes" using assms(1) by (simp add: maTypes_def)
  have l: "l < length ?ls" using assms(2) len by simp
  have "combinations ! (t * length ?ls + l) = (maTypes ! t, ?ls ! l)"
    unfolding combinations_def by (rule nth_concat_map_uniform [OF t l])
  then show ?thesis by (simp only: len nth)
qed

lemma in_set_map_filter:
  "c \<in> set (List.map_filter f xs) \<longleftrightarrow> (\<exists>x \<in> set xs. f x = Some c)"
  by (induction xs) (auto split: option.splits)

lemma calculateCompositeScore_range:
  "0 \<le> calculateCompositeScore cs r p tf \<and> calculateCompositeScore cs r p tf \<le> 1"
proof -
  let ?w = "specWeightedSum cs r p"
  let ?m = "scoreTimeframeMultiplier tf"
  have eq: "calculateCompositeScore cs r p tf = ?w * ?m"
    unfolding specWeightedSum_def calculateCompositeScore_def Let_def max_min_clamp by simp
  have w: "0 \<le> ?w \<and> ?w \<le> 1"
    using clamp_unit [of "(cs + 100) / 200"] clamp_unit [of r] clamp_unit [of "winRate p"]
      clamp_unit [of "profitFactor p / 1000"] clamp_unit [of "1 - maxDrawdown p / 1000"]
    unfolding specWeightedSum_def by linarith
  have m: "0 \<le> ?m \<and> ?m \<le> 1"
    by (rule scoreTimeframeMultiplier_range)
  have "0 \<le> ?w * ?m" using w m by simp
  moreover have "?w * ?m \<le> 1 * 1"
    using w m by (intro mult_mono) simp_all
  ultimately show ?thesis using eq by simp
qed

lemma scoreCombination_range:
  assumes "scoreCombination f prices tf c = Some config"
  shows "0 \<le> configScore config \<and> configScore config \<le> 1"
proof -
  from assms obtain cs r p where "configScore config = calculateCompositeScore cs r p tf"
    by (auto simp: scoreCombination_def Let_def split: prod.splits option.splits if_splits)
  then show ?thesis using calculateCompositeScore_range by simp
qed

text \<open>
  C10. For every crossover score, R squared, performance record and timeframe string the
  composite score lies between 0 and 1. So when the optimizer returns a result, the score
  of the winning configuration and the score of every entry of \<open>allResults\<close> lie between
  0 and 1.
\<close>

theorem composite_score_unit_interval:
  "0 \<le> calculateCompositeScore cs r p tf \<and> calculateCompositeScore cs r p tf \<le> 1
   \<and> (optimizeMAParameters calculateMA bars timeframe = Inr res \<longrightarrow>
        0 \<le> configScore (bestConfig res) \<and> configScore (bestConfig res) \<le> 1
        \<and> (\<forall>c \<in> set (allResults res). 0 \<le> configScore c \<and> configScore c \<le> 1))"
proof (intro conjI impI)
  assume opt: "optimizeMAParameters calculateMA bars timeframe = Inr res"
  from optimize_characterisation [OF opt]
  have all: "allResults res
        = List.map_filter (scoreCombination calculateMA (map close bars) timeframe) combinations"
    and fm: "firstMaximum (Some (bestConfig res)) (allResults res)" by blast+
  show range: "\<forall>c \<in> set (allResults res). 0 \<le> configScore c \<and> configScore c \<le> 1"
    unfolding all by (auto simp: in_set_map_filter dest!: scoreCombination_range)
  have "bestConfig res \<in> set (allResults res)" using firstMaximum_Max [OF fm] by simp
  with range show "0 \<le> configScore (bestConfig res)" "configScore (bestConfig res) \<le> 1"
    by blast+
qed (simp_all add: calculateCompositeScore_range)

theorem composite_score_unit_interval_witness:
  "\<exists>res. optimizeMAParameters windowMean (replicate 50 exampleBar) ''15m'' = Inr res
     \<and> 0 \<le> configScore (bestConfig res) \<and> configScore (bestConfig res) \<le> 1
     \<and> (\<forall>c \<in> set (allResults res). 0 \<le> configScore c \<and> configScore c \<le> 1)"
proof -
  obtain res where res: "optimizeMAParameters windowMean (replicate 50 exampleBar) ''15m'' = Inr res"
    using optimize_succeeds [OF _ first_combination example_scored, of "''15m''"] by auto
  from composite_score_unit_interval [of _ _ _ _ windowMean "replicate 50 exampleBar" "''15m''" res]
    res show ?thesis by blast
qed

text \<open>
  C5. When \<open>optimizeMAParameters\<close> returns a result, there are at least 50 bars;
  \<open>allResults\<close> lists the scored combinations in the order of the loops (the type in the
  outer loop, in the order of \<open>maTypes\<close>, the length ascending from 5 to 30 in the inner
  one); the winner is one of them, its score is the maximum of their scores, and every
  result before it has a strictly smaller score. The optimizer is a function of its
  arguments: a second run on the same bars returns the same result.
\<close>

theorem optimizer_returns_first_maximum:
  assumes "optimizeMAParameters calculateMA bars timeframe = Inr r"
  shows "50 \<le> length bars
    \<and> allResults r
        = List.map_filter (scoreCombination calculateMA (map close bars) timeframe) combinations
    \<and> (\<forall>t < 7. \<forall>l < 26. combinations ! (t * 26 + l) = (maTypes ! t, 5 + l))
    \<and> bestConfig r \<in> set (allResults r)
    \<and> configScore (bestConfig r) = Max (configScore ` set (allResults r))
    \<and> (\<exists>i < length (allResults r). allResults r ! i = bestConfig r
          \<and> (\<forall>j < i. configScore (allResults r ! j) < configScore (bestConfig r)))
    \<and> (\<forall>r'. optimizeMAParameters calculateMA bars timeframe = Inr r' \<longrightarrow> r' = r)"
proof -
  from optimize_characterisation [OF assms]
  have len: "50 \<le> length bars"
    and all: "allResults r
        = List.map_filter (scoreCombination calculateMA (map close bars) timeframe) combinations"
    and fm: "firstMaximum (Some (bestConfig r)) (allResults r)" by blast+
  from fm have first: "\<exists>i < length (allResults r). allResults r ! i = bestConfig r
          \<and> (\<forall>j < i. configScore (allResults r ! j) < configScore (bestConfig r))"
    by (auto simp: firstMaximum_def)
  from len all first firstMaximum_Max [OF fm] combinations_order assms show ?thesis
    by simp
qed

theorem optimizer_returns_first_maximum_witness:
  "\<exists>r. optimizeMAParameters windowMean (replicate 50 exampleBar) ''5m'' = Inr r
     \<and> bestConfig r \<in> set (allResults r)
     \<and> configScore (bestConfig r) = Max (configScore ` set (allResults r))
     \<and> (\<exists>i < length (allResults r). allResults r ! i = bestConfig r
          \<and> (\<forall>j < i. configScore (allResults r ! j) < configScore (bestConfig r)))"
proof -
  obtain r where r: "optimizeMAParameters windowMean (replicate 50 exampleBar) ''5m'' = Inr r"
    using optimize_succeeds [OF _ first_combination example_scored, of "''5m''"] by auto
  from optimizer_returns_first_maximum [OF r] r show ?thesis by blast
qed

section \<open>Properties of the signals\<close>

text \<open>
  C8. On a price array of fewer than \<open>maLength + 2\<close> elements \<open>calculateSignals\<close> returns
  the action HOLD with confidence 0, \<open>valid = false\<close> and the reason
  \<open>Insufficient data: n < maLength + 2\<close>, whatever the moving average function, the type
  and the candle; no error is raised.
\<close>

theorem signals_hold_on_insufficient_data:
  "length ps < maLength + 2 \<Longrightarrow>
   calculateSignals calculateMA (Some ps) maType maLength candleData
     = \<lparr>action = HOLD, signalConfidence = 0,
        reason = InsufficientData (length ps) (maLength + 2),
        valid = False, pending = False, crossover = None\<rparr>"
  by (simp add: calculateSignals_def holdSignal_def)

theorem signals_hold_on_insufficient_data_witness:
  "length [100, 101, 102 :: real] < 14 + 2
   \<and> calculateSignals windowMean (Some [100, 101, 102]) ''SMA'' 14 None
     = \<lparr>action = HOLD, signalConfidence = 0, reason = InsufficientData 3 16,
        valid = False, pending = False, crossover = None\<rparr>"
  using signals_hold_on_insufficient_data [of "[100, 101, 102]" 14 windowMean "''SMA''" None]
  by simp

section \<open>Properties of the risk manager\<close>

lemma getFeeRate_zero: "getFeeRate 0 False = 0.0025"
  by (simp add: getFeeRate_def feeTiers_def)

lemma getFeeRate_taker_range: "0.001 \<le> getFeeRate v False \<and> getFeeRate v False \<le> 0.0025"
  by (simp add: getFeeRate_def feeTiers_def)

lemma totalFees_calculateTradeFees:
  "totalFees (calculateTradeFees ps entry exit v)
     = ps * getFeeRate v False * entry + ps * exit * getFeeRate v False"
  by (simp add: calculateTradeFees_def Let_def)

lemma atr_example: "calculateATR (replicate 15 exampleBar) 14 = Some 2"
  by code_simp

text \<open>Whenever the ATR is computed and not zero, \<open>calculateOptimalTPSL\<close> raises the
  \<open>TypeError\<close> and returns no object.\<close>

lemma tpsl_raises_whenever_atr_nonzero:
  "calculateATR priceData 14 = Some atr \<Longrightarrow> atr \<noteq> 0 \<Longrightarrow>
   calculateOptimalTPSL priceData currentPrice maType maLength positionSize volume30Day timeframe
     = Inl AssignmentToConstantVariable"
  by (simp add: calculateOptimalTPSL_def)

text \<open>
  C1 at a failing input: 15 bars with high 101, low 99 and close 100, so that the ATR is 2,
  a current price of 100, the position size 0.001, volume 0 and the timeframe 5m. The call
  raises \<open>TypeError: Assignment to constant variable\<close>; no object is returned, so there is
  no \<open>stopLossPercent\<close> and no \<open>takeProfitPercent\<close> to lie within bounds.
\<close>

theorem tpsl_raises_on_computable_atr:
  "length (replicate 15 exampleBar) = 15
   \<and> calculateATR (replicate 15 exampleBar) 14 = Some 2
   \<and> calculateOptimalTPSL (replicate 15 exampleBar) 100 ''SMA'' 14 0.001 0 ''5m''
       = Inl AssignmentToConstantVariable
   \<and> (\<forall>r. calculateOptimalTPSL (replicate 15 exampleBar) 100 ''SMA'' 14 0.001 0 ''5m'' \<noteq> Inr r)"
  using tpsl_raises_whenever_atr_nonzero [OF atr_example, of 100 "''SMA''" 14 "0.001" 0 "''5m''"]
    atr_example
  by simp

text \<open>
  C7. On fewer than 15 bars \<open>calculateOptimalTPSL\<close> returns the fallback object: stop loss
  \<open>currentPrice * 0.985\<close>, take profit \<open>currentPrice * 1.03\<close>, confidence 0.5. It returns
  it as a value: no error is raised.
\<close>

theorem tpsl_fallback_on_short_series:
  "length priceData < 15 \<Longrightarrow>
   calculateOptimalTPSL priceData currentPrice maType maLength positionSize volume30Day timeframe
     = Inr (Fallback (currentPrice * 0.985) (currentPrice * 1.03) 0.5)"
  by (simp add: calculateOptimalTPSL_def calculateATR_def)

theorem tpsl_fallback_on_short_series_witness:
  "length (replicate 14 exampleBar) < 15
   \<and> calculateOptimalTPSL (replicate 14 exampleBar) 200 ''EMA'' 14 0.001 0 ''5m''
     = Inr (Fallback 197 206 0.5)"
  using tpsl_fallback_on_short_series [of "replicate 14 exampleBar" 200 "''EMA''" 14 "0.001" 0 "''5m''"]
  by simp

lemma scenarioSize_value:
  "scenarioSize = \<lparr>size = 15, riskAmount = 100, actualRisk = 22.4625,
                    actualRiskPercent = 0.22, maxAllowed = 15\<rparr>"
  unfolding scenarioSize_def scenarioAccount_def calculatePositionSize_def Let_def
    totalFees_calculateTradeFees getFeeRate_zero sizeTimeframeMultiplier_def
    maxPositionPercent_def minPositionSize_def toFixed2_def
  by simp

lemma tightStopSize_value:
  "tightStopSize = \<lparr>size = 15, riskAmount = 10, actualRisk = 13.485,
                     actualRiskPercent = 0.13, maxAllowed = 15\<rparr>"
  unfolding tightStopSize_def scenarioAccount_def calculatePositionSize_def Let_def
    totalFees_calculateTradeFees getFeeRate_zero sizeTimeframeMultiplier_def
    maxPositionPercent_def minPositionSize_def toFixed2_def
  by simp

text \<open>
  C9, as amended. In the scenario (equity 10000, buying power 20000, risk 1%, entry 100,
  stop 99, volatility 0.02, timeframe 5m, volume 0) the size is 15: it is positive and
  \<open>size * 100 = 1500\<close>, the cap of 15% of equity. The risk is 22.4625, and
  \<open>actualRiskPercent\<close> is 0.22: below 1.1, and less than a quarter of it.
\<close>

theorem sizing_scenario_values:
  "size scenarioSize = 15 \<and> 0 < size scenarioSize \<and> size scenarioSize * 100 \<le> 1500
   \<and> size scenarioSize = maxAllowed scenarioSize
   \<and> actualRisk scenarioSize = 22.4625
   \<and> actualRiskPercent scenarioSize = 0.22 \<and> actualRiskPercent scenarioSize \<le> 1.1"
  by (simp add: scenarioSize_value)

text \<open>
  C9, as stated, asks for a risk percentage close to 1.1. Read as generously as at least
  half of 1.1, the statement fails: the scenario's \<open>actualRiskPercent\<close> is 0.22.
\<close>

theorem sizing_scenario_not_near_bound:
  "\<not> (0 < size scenarioSize \<and> size scenarioSize * 100 \<le> 1500
      \<and> 1.1 / 2 \<le> actualRiskPercent scenarioSize \<and> actualRiskPercent scenarioSize \<le> 1.1)"
  by (simp add: scenarioSize_value)

lemma riskAmount_calculatePositionSize:
  "riskAmount (calculatePositionSize acct riskPercent entry stop vol volume30Day tf)
     = equity acct * (riskPercent / 100) * max 0.5 (min 1.5 (1 / (vol * 50)))
         * sizeTimeframeMultiplier tf"
  by (simp only: calculatePositionSize_def Let_def sizeResult.select_convs)

lemma size_calculatePositionSize:
  fixes acct :: accountInfo and riskPercent vol :: real and tf :: string
  defines "E \<equiv> equity acct * (riskPercent / 100) * max 0.5 (min 1.5 (1 / (vol * 50)))
         * sizeTimeframeMultiplier tf"
  shows "size (calculatePositionSize acct riskPercent entry stop vol volume30Day tf)
     = max minPositionSize
         (min (min (buyingPower acct * (maxPositionPercent / 100) / entry)
                   (equity acct * 0.15 / entry))
            (if E - totalFees (calculateTradeFees (E / \<bar>entry - stop\<bar>) entry stop volume30Day) > 0
             then (E - totalFees (calculateTradeFees (E / \<bar>entry - stop\<bar>) entry stop volume30Day))
                    / \<bar>entry - stop\<bar>
             else E / \<bar>entry - stop\<bar>))"
  by (simp only: calculatePositionSize_def Let_def sizeResult.select_convs E_def)

lemma actualRisk_calculatePositionSize:
  "actualRisk (calculatePositionSize acct riskPercent entry stop vol volume30Day tf)
     = \<bar>entry - stop\<bar> * size (calculatePositionSize acct riskPercent entry stop vol volume30Day tf)
       + totalFees (calculateTradeFees
           (size (calculatePositionSize acct riskPercent entry stop vol volume30Day tf))
           entry stop volume30Day)"
  by (simp only: calculatePositionSize_def Let_def sizeResult.select_convs)

text \<open>
  Where the fees at the initial size stay below the risk amount, so that the size is
  reduced for them, and the size is not raised to the floor, the stop distance times the
  size plus the fees at that size is within the risk amount.
\<close>

lemma sizing_within_budget_when_fee_adjusted:
  fixes acct :: accountInfo and riskPercent entry stop vol volume30Day :: real and tf :: string
  defines "r \<equiv> calculatePositionSize acct riskPercent entry stop vol volume30Day tf"
  assumes pos: "0 < equity acct" "0 \<le> riskPercent" "0 < entry" "0 \<le> stop" "entry \<noteq> stop"
    and adjusted: "totalFees (calculateTradeFees (riskAmount r / \<bar>entry - stop\<bar>) entry stop volume30Day)
                     < riskAmount r"
    and nofloor: "minPositionSize < size r"
  shows "\<bar>entry - stop\<bar> * size r + totalFees (calculateTradeFees (size r) entry stop volume30Day)
           \<le> riskAmount r
       \<and> actualRisk r \<le> riskAmount r"
proof -
  define d where "d = \<bar>entry - stop\<bar>"
  define k where "k = getFeeRate volume30Day False * (entry + stop)"
  define maxSize where "maxSize = min (buyingPower acct * (maxPositionPercent / 100) / entry)
                        (equity acct * 0.15 / entry)"
  define va where "va = max 0.5 (min 1.5 (1 / (vol * 50)))"
  define E where "E = equity acct * (riskPercent / 100) * va * sizeTimeframeMultiplier tf"
  define S where "S = size r"
  have d: "0 < d" using pos(5) by (simp add: d_def)
  have k: "0 \<le> k"
    using getFeeRate_taker_range [of volume30Day] pos(3,4) by (simp add: k_def)
  have fees: "totalFees (calculateTradeFees x entry stop volume30Day) = k * x" for x
    by (simp add: totalFees_calculateTradeFees k_def algebra_simps)
  have R: "riskAmount r = E"
    unfolding r_def E_def va_def by (rule riskAmount_calculatePositionSize)
  have sz: "S = max minPositionSize
      (min maxSize (if E - k * (E / d) > 0 then (E - k * (E / d)) / d else E / d))"
    unfolding S_def r_def E_def va_def d_def maxSize_def fees [symmetric]
    by (rule size_calculatePositionSize)
  have ar: "actualRisk r = d * S + k * S"
    unfolding S_def r_def d_def fees [symmetric] by (rule actualRisk_calculatePositionSize)
  have "0 \<le> va" by (simp add: va_def)
  moreover have "0 \<le> sizeTimeframeMultiplier tf" by (simp add: sizeTimeframeMultiplier_def)
  ultimately have E0: "0 \<le> E" using pos(1,2) unfolding E_def by simp
  have adj: "E - k * (E / d) > 0" using adjusted by (simp add: fees R d_def)
  from nofloor have "minPositionSize < S" by (simp add: S_def)
  then have le: "S \<le> (E - k * (E / d)) / d"
    unfolding sz using adj by (simp add: max_def split: if_splits)
  have "(d + k) * S \<le> (d + k) * ((E - k * (E / d)) / d)"
    using le d k by (intro mult_left_mono) simp_all
  also have "\<dots> = E - E * (k / d)\<^sup>2"
    using d by (simp add: field_simps power2_eq_square)
  also have "\<dots> \<le> E" using E0 by simp
  finally have "d * S + k * S \<le> E" by (simp add: algebra_simps)
  then show ?thesis using ar by (simp add: fees R S_def d_def mult.commute)
qed

text \<open>
  C3 at a failing input: equity 10000, buying power 20000, risk 0.1%, entry 100, stop 99.6,
  volatility 0.02, timeframe 5m, volume 0. The fees at the initial size 25 are 12.475,
  above the risk amount 10, so the size is not reduced for fees; it is 15 after the cap,
  above the floor \<open>minPositionSize\<close>, and the stop distance times the size plus the fees
  at that size is 13.485, above the risk amount.
\<close>

theorem sizing_budget_exceeded:
  "size tightStopSize = 15 \<and> minPositionSize < size tightStopSize
   \<and> riskAmount tightStopSize = 10
   \<and> \<bar>100 - 99.6\<bar> * size tightStopSize
       + totalFees (calculateTradeFees (size tightStopSize) 100 99.6 0) = 13.485
   \<and> actualRisk tightStopSize = 13.485
   \<and> \<not> actualRisk tightStopSize \<le> riskAmount tightStopSize"
  by (simp add: tightStopSize_value totalFees_calculateTradeFees getFeeRate_zero
      minPositionSize_def)


section \<open>Properties of the trading loop\<close>

lemma tradeSection_buy:
  assumes "tradeSection cfg s obs = Inr (s', Some (BuyOrder q))"
  shows "previousPriceVsMA s = Some Below \<and> tickPrice obs > tickMA obs \<and> position s = None
         \<and> tickSignal obs = BUY"
  using assms
  by (auto simp: tradeSection_def endOfIteration_def Let_def
      split: if_splits sum.splits prod.splits option.splits)

lemma tradeSection_countdown:
  assumes "tradeSection cfg s obs = Inr (s', call)"
  shows "initializationWaitTicks s' = initializationWaitTicks s
       \<and> initializationComplete s' = initializationComplete s"
  using assms
  by (auto simp: tradeSection_def endOfIteration_def Let_def
      split: if_splits sum.splits prod.splits option.splits)

lemma catchBlock_cases:
  assumes "catchBlock s result = (s', call)"
  shows "(s' = s \<and> call = None) \<or> result = Inr (s', call)"
  using assms by (auto simp: catchBlock_def split: sum.splits)

lemma catchBlock_countdown:
  assumes "catchBlock s (tradeSection cfg s obs) = (s', call)"
  shows "initializationWaitTicks s' = initializationWaitTicks s
       \<and> initializationComplete s' = initializationComplete s"
  using catchBlock_cases [OF assms] tradeSection_countdown [of cfg s obs s' call] by auto

lemma catchBlock_buy:
  assumes "catchBlock s (tradeSection cfg s obs) = (s', Some (BuyOrder q))"
  shows "tradeSection cfg s obs = Inr (s', Some (BuyOrder q))"
  using catchBlock_cases [OF assms] by auto

lemma tradingTick_invariant:
  assumes "initializationWaitTicks s = 0 \<longrightarrow> initializationComplete s"
    and "tradingTick cfg s t = (s', call)"
  shows "initializationWaitTicks s' = 0 \<longrightarrow> initializationComplete s'"
  using assms
  by (auto simp: tradingTick_def Let_def split: tickInput.splits option.splits if_splits
      dest!: catchBlock_countdown)

lemma runTicks_invariant:
  assumes "initializationWaitTicks s = 0 \<longrightarrow> initializationComplete s"
    and "runTicks cfg s ts = (s', calls)"
  shows "initializationWaitTicks s' = 0 \<longrightarrow> initializationComplete s'"
  using assms
proof (induction ts arbitrary: s s' calls)
  case Nil
  then show ?case by simp
next
  case (Cons t ts)
  obtain s1 c1 where t: "tradingTick cfg s t = (s1, c1)" by (cases "tradingTick cfg s t")
  obtain s2 c2 where r: "runTicks cfg s1 ts = (s2, c2)" by (cases "runTicks cfg s1 ts")
  from Cons.prems(2) t r have "s' = s2" by simp
  moreover have "initializationWaitTicks s1 = 0 \<longrightarrow> initializationComplete s1"
    using tradingTick_invariant [OF Cons.prems(1) t] .
  ultimately show ?case using Cons.IH [OF _ r] by simp
qed

lemma tradingTick_buy:
  assumes "tradingTick cfg s t = (s', Some (BuyOrder q))"
  shows "initializationWaitTicks s = 0 \<and> previousPriceVsMA s = Some Below \<and> position s = None
       \<and> (\<exists>obs. t = Observed obs \<and> relationOf (tickPrice obs) (tickMA obs) = Above
                \<and> tickSignal obs = BUY)"
proof (cases t)
  case TickError
  with assms show ?thesis by (simp add: tradingTick_def)
next
  case (Observed obs)
  show ?thesis
  proof (cases "previousPriceVsMA s")
    case None
    with assms Observed show ?thesis by (simp add: tradingTick_def Let_def)
  next
    case (Some prev)
    show ?thesis
    proof (cases "initializationWaitTicks s > 0")
      case True
      show ?thesis
      proof (cases "initializationWaitTicks s - 1 > 0")
        case True
        with assms Observed Some \<open>initializationWaitTicks s > 0\<close> show ?thesis
          by (simp add: tradingTick_def Let_def)
      next
        case False
        define s1 where "s1 = s\<lparr>initializationWaitTicks := initializationWaitTicks s - 1,
                 initializationComplete := True,
                 previousPriceVsMA := Some (relationOf (tickPrice obs) (tickMA obs))\<rparr>"
        from False assms Observed Some True
        have "catchBlock s1 (tradeSection cfg s1 obs) = (s', Some (BuyOrder q))"
          by (simp add: tradingTick_def Let_def s1_def)
        from tradeSection_buy [OF catchBlock_buy [OF this]]
        have "relationOf (tickPrice obs) (tickMA obs) = Below" "tickPrice obs > tickMA obs"
          by (simp_all add: s1_def)
        then show ?thesis by (simp add: relationOf_def)
      qed
    next
      case False
      with assms Observed Some
      have "catchBlock s (tradeSection cfg s obs) = (s', Some (BuyOrder q))"
        by (simp add: tradingTick_def Let_def)
      from tradeSection_buy [OF catchBlock_buy [OF this]] False Observed show ?thesis
        by (simp add: relationOf_def)
    qed
  qed
qed

lemma volatility_flatHistory: "calculateVolatility (sliceLast 50 flatHistory) = 0"
  by (simp add: calculateVolatility_def sliceLast_def flatHistory_def exampleBar_def)

lemma volatility_volatileHistory: "calculateVolatility (sliceLast 50 volatileHistory) = 41 / 840"
proof -
  have "calculateVolatility (sliceLast 50 volatileHistory) = sqrt ((41 / 840)\<^sup>2)"
    by (simp add: calculateVolatility_def sliceLast_def volatileHistory_def power2_eq_square)
  then show ?thesis by simp
qed

lemma initialization_run:
  "currentTimeframe cfg = ''15m'' \<or> calculateVolatility (sliceLast 50 (historicalData cfg)) = 0
   \<Longrightarrow> runTicks cfg initialState (replicate 11 belowTick) = (armedBelow, replicate 11 None)"
  by (auto simp: eval_nat_numeral initialState_def belowTick_def armedBelow_def tradingTick_def
      tradeSection_def endOfIteration_def catchBlock_def relationOf_def Let_def
      maxVolatilityThreshold_def)

lemma crossTick_buys:
  "currentTimeframe cfg = ''15m'' \<or> calculateVolatility (sliceLast 50 (historicalData cfg)) = 0
   \<Longrightarrow> \<not> useMLRisk cfg
   \<Longrightarrow> snd (tradingTick cfg armedBelow crossTick) = Some (BuyOrder 0.001)"
  by (auto simp: crossTick_def armedBelow_def tradingTick_def entryLevels_def
      tradeSection_def endOfIteration_def catchBlock_def relationOf_def Let_def
      maxVolatilityThreshold_def)


text \<open>
  C2. Let \<open>s\<close> be a state the loop reaches from its initial state after any finite sequence
  of iterations. If the next iteration submits a buy order, then in \<open>s\<close> the initialization
  is complete, the countdown is at zero, the recorded previous relation is Below and no
  position is open, and the iteration observes the price above the moving average.
\<close>

theorem buy_only_on_confirmed_crossover:
  assumes "runTicks cfg initialState ticks = (s, calls)"
    and "snd (tradingTick cfg s t) = Some (BuyOrder q)"
  shows "initializationComplete s \<and> initializationWaitTicks s = 0
       \<and> previousPriceVsMA s = Some Below \<and> position s = None
       \<and> (\<exists>obs. t = Observed obs \<and> relationOf (tickPrice obs) (tickMA obs) = Above)"
proof -
  have "initializationWaitTicks initialState = 0 \<longrightarrow> initializationComplete initialState"
    by (simp add: initialState_def)
  from runTicks_invariant [OF this assms(1)]
  have inv: "initializationWaitTicks s = 0 \<longrightarrow> initializationComplete s" .
  obtain s' where "tradingTick cfg s t = (s', Some (BuyOrder q))"
    using assms(2) by (cases "tradingTick cfg s t") simp
  from tradingTick_buy [OF this] inv show ?thesis by blast
qed

theorem buy_only_on_confirmed_crossover_witness:
  "runTicks (manualConfig ''5m'' flatHistory) initialState (replicate 11 belowTick)
     = (armedBelow, replicate 11 None)
   \<and> snd (tradingTick (manualConfig ''5m'' flatHistory) armedBelow crossTick)
     = Some (BuyOrder 0.001)
   \<and> initializationComplete armedBelow \<and> initializationWaitTicks armedBelow = 0
   \<and> previousPriceVsMA armedBelow = Some Below \<and> position armedBelow = None
   \<and> (\<exists>obs. crossTick = Observed obs \<and> relationOf (tickPrice obs) (tickMA obs) = Above)"
proof -
  have run: "runTicks (manualConfig ''5m'' flatHistory) initialState (replicate 11 belowTick)
      = (armedBelow, replicate 11 None)"
    by (rule initialization_run) (simp add: manualConfig_def volatility_flatHistory)
  have buy: "snd (tradingTick (manualConfig ''5m'' flatHistory) armedBelow crossTick)
      = Some (BuyOrder 0.001)"
    by (rule crossTick_buys) (simp_all add: manualConfig_def volatility_flatHistory)
  from buy_only_on_confirmed_crossover [OF run buy] run buy show ?thesis by simp
qed

text \<open>
  C6, as amended. For the timeframes 1m and 5m, when the volatility of the last 50 bars of
  the historical data is above 5% and 3%, the iteration submits no order, whatever the
  state and the signal. For the timeframe 15m the filter is not applied: after
  initialization, with the previous relation Below, no position, a BUY signal and the price
  above the moving average, the buy order is submitted whatever the volatility, when the
  stop loss and take profit are the manual ones (the ML branch is not taken).
\<close>

theorem volatility_filter_by_timeframe:
  "((currentTimeframe cfg = ''1m''
       \<and> calculateVolatility (sliceLast 50 (historicalData cfg)) > 0.05)
     \<or> (currentTimeframe cfg = ''5m''
       \<and> calculateVolatility (sliceLast 50 (historicalData cfg)) > 0.03)
     \<longrightarrow> snd (tradingTick cfg s t) = None)
   \<and> (currentTimeframe cfg = ''15m'' \<and> \<not> (useMLRisk cfg \<and> positionSizing cfg = ''ml'')
       \<and> initializationWaitTicks s = 0
       \<and> previousPriceVsMA s = Some Below \<and> position s = None
       \<and> tickSignal obs = BUY \<and> tickPrice obs > tickMA obs
     \<longrightarrow> snd (tradingTick cfg s (Observed obs)) = Some (BuyOrder 0.001))"
proof (intro conjI impI)
  assume "(currentTimeframe cfg = ''1m''
       \<and> calculateVolatility (sliceLast 50 (historicalData cfg)) > 0.05)
     \<or> (currentTimeframe cfg = ''5m''
       \<and> calculateVolatility (sliceLast 50 (historicalData cfg)) > 0.03)"
  then have high: "calculateVolatility (sliceLast 50 (historicalData cfg))
        > maxVolatilityThreshold (currentTimeframe cfg)
      \<and> (currentTimeframe cfg = ''1m'' \<or> currentTimeframe cfg = ''5m'')"
    by (auto simp: maxVolatilityThreshold_def)
  have nocall: "snd (catchBlock s' (tradeSection cfg s' obs')) = None" for s' obs'
    using high by (simp add: tradeSection_def endOfIteration_def catchBlock_def Let_def)
  show "snd (tradingTick cfg s t) = None"
    by (simp add: tradingTick_def Let_def nocall split: tickInput.splits option.splits)
next
  assume "currentTimeframe cfg = ''15m'' \<and> \<not> (useMLRisk cfg \<and> positionSizing cfg = ''ml'')
       \<and> initializationWaitTicks s = 0
       \<and> previousPriceVsMA s = Some Below \<and> position s = None
       \<and> tickSignal obs = BUY \<and> tickPrice obs > tickMA obs"
  then show "snd (tradingTick cfg s (Observed obs)) = Some (BuyOrder 0.001)"
    by (auto simp: tradingTick_def tradeSection_def endOfIteration_def catchBlock_def
        entryLevels_def Let_def)
qed

theorem volatility_filter_by_timeframe_witness:
  "calculateVolatility (sliceLast 50 (historicalData (manualConfig ''5m'' volatileHistory))) > 0.03
   \<and> snd (tradingTick (manualConfig ''5m'' volatileHistory) armedBelow crossTick) = None
   \<and> \<not> (useMLRisk (manualConfig ''15m'' volatileHistory)
         \<and> positionSizing (manualConfig ''15m'' volatileHistory) = ''ml'')
   \<and> snd (tradingTick (manualConfig ''15m'' volatileHistory) armedBelow crossTick)
       = Some (BuyOrder 0.001)"
  using volatility_filter_by_timeframe [of "manualConfig ''5m'' volatileHistory" armedBelow crossTick]
    volatility_filter_by_timeframe [of "manualConfig ''15m'' volatileHistory" armedBelow _
      "\<lparr>tickPrice = 101, tickMA = 100, tickSignal = BUY,
        orderSuccess = True, resultOrderId = ''order-1''\<rparr>"]
  by (simp add: manualConfig_def volatility_volatileHistory armedBelow_def crossTick_def)

text \<open>
  C6, as stated, fails for the timeframe 15m: with a volatility of 41/840, about 4.9% and
  above the 2% threshold, the loop initialized on eleven ticks below the moving average
  submits the buy order on the crossing tick.
\<close>

theorem volatility_filter_absent_for_15m:
  "maxVolatilityThreshold ''15m'' = 0.02
   \<and> 0.02 < calculateVolatility (sliceLast 50 (historicalData (manualConfig ''15m'' volatileHistory)))
   \<and> runTicks (manualConfig ''15m'' volatileHistory) initialState (replicate 11 belowTick)
     = (armedBelow, replicate 11 None)
   \<and> snd (tradingTick (manualConfig ''15m'' volatileHistory) armedBelow crossTick)
     = Some (BuyOrder 0.001)"
proof -
  have "maxVolatilityThreshold ''15m'' = 0.02
     \<and> 0.02 < calculateVolatility (sliceLast 50 (historicalData (manualConfig ''15m'' volatileHistory)))"
    by (simp add: manualConfig_def volatility_volatileHistory maxVolatilityThreshold_def)
  moreover have "runTicks (manualConfig ''15m'' volatileHistory) initialState (replicate 11 belowTick)
     = (armedBelow, replicate 11 None)"
    by (rule initialization_run) (simp add: manualConfig_def)
  moreover have "snd (tradingTick (manualConfig ''15m'' volatileHistory) armedBelow crossTick)
     = Some (BuyOrder 0.001)"
    by (rule crossTick_buys) (simp_all add: manualConfig_def)
  ultimately show ?thesis by simp
qed

end
